theory Spec2Isabelle
  imports Main "HOL-Library.Word"
begin

section \<open>Trace propagation over gRPC metadata (contrib/google.golang.org/grpc/grpc.go)\<close>

text \<open>
  The file under verification holds the two unary interceptors and the codec
  \<open>setIDs\<close> / \<open>getIDs\<close> / \<open>getID\<close> that writes a span's identifiers into gRPC metadata
  and reads them back. Identifiers are Go \<open>uint64\<close> values, modelled as 64-bit words.
  Go's \<open>int\<close> is taken to be 64 bits wide (a 64-bit platform).
\<close>

type_synonym u64 = "64 word"

subsection \<open>The standard library: \<open>strconv.Atoi\<close> and \<open>fmt.Sprint\<close> on \<open>uint64\<close>\<close>

datatype NumError = ErrSyntax | ErrRange

definition is_digit :: "char \<Rightarrow> bool" where
  "is_digit c = (48 \<le> (of_char c :: nat) \<and> (of_char c :: nat) \<le> 57)"

definition digit_val :: "char \<Rightarrow> nat" where
  "digit_val c = of_char c - 48"

definition maxUint64 :: nat where
  "maxUint64 = 2 ^ 64 - 1"

definition cutoff :: nat where
  "cutoff = maxUint64 div 10 + 1"

text \<open>
  The digit loop of \<open>strconv.ParseUint(s, 10, 64)\<close>: a byte that is no decimal digit is a
  syntax error; \<open>n >= cutoff\<close> means that \<open>n * 10\<close> overflows, and \<open>n1 > maxVal\<close> that
  adding the digit does: both are range errors. The accumulator is a \<open>nat\<close>, and the two
  checks keep it below \<open>2 ^ 64\<close>.
\<close>

fun ParseUint_loop :: "nat \<Rightarrow> string \<Rightarrow> NumError + nat" where
  "ParseUint_loop n [] = Inr n"
| "ParseUint_loop n (c # cs) =
     (if \<not> is_digit c then Inl ErrSyntax
      else if n \<ge> cutoff then Inl ErrRange
      else if n * 10 + digit_val c > maxUint64 then Inl ErrRange
      else ParseUint_loop (n * 10 + digit_val c) cs)"

definition ParseUint :: "string \<Rightarrow> NumError + nat" where
  "ParseUint s = (if s = [] then Inl ErrSyntax else ParseUint_loop 0 s)"

text \<open>
  \<open>strconv.ParseInt(s, 10, 0)\<close>: an optional sign, then \<open>ParseUint\<close>; the magnitude must
  fit a signed 64-bit integer (\<open>cutoff = 1 << 63\<close>).
\<close>

definition ParseInt :: "string \<Rightarrow> NumError + int" where
  "ParseInt s =
     (case s of
        [] \<Rightarrow> Inl ErrSyntax
      | c # cs \<Rightarrow>
          let neg = (c = CHR ''-'');
              s1 = (if c = CHR ''+'' \<or> c = CHR ''-'' then cs else s)
          in case ParseUint s1 of
               Inl e \<Rightarrow> Inl e
             | Inr un \<Rightarrow>
                 if \<not> neg \<and> un \<ge> 2 ^ 63 then Inl ErrRange
                 else if neg \<and> un > 2 ^ 63 then Inl ErrRange
                 else Inr (if neg then - int un else int un))"

definition Atoi :: "string \<Rightarrow> NumError + int" where
  "Atoi s = ParseInt s"

text \<open>
  \<open>fmt.Sprint\<close> of a \<open>uint64\<close> prints it in decimal, most significant digit first,
  without sign or leading zeros (\<open>strconv.FormatUint(u, 10)\<close>).
\<close>

definition digit_char :: "nat \<Rightarrow> char" where
  "digit_char d = ''0123456789'' ! d"

fun FormatUint :: "nat \<Rightarrow> string" where
  "FormatUint u = (if 10 \<le> u then FormatUint (u div 10) @ [digit_char (u mod 10)]
                   else [digit_char u])"

declare FormatUint.simps [simp del]

definition Sprint :: "u64 \<Rightarrow> string" where
  "Sprint x = FormatUint (unat x)"

subsection \<open>The gRPC library: metadata, contexts, status codes\<close>

text \<open>
  Modelled from the spec: package \<open>google.golang.org/grpc/metadata\<close> is imported by the
  file and is not part of the sources. The spec's carrier is a mapping whose keys are
  unique and where "each key maps to an ordered sequence of string values"; it comes in
  an incoming and an outgoing variant, and its join operation is a "multi-valued union
  (both old and new values coexist)", the carrier being append-only. This is the Go type
  \<open>MD = map[string][]string\<close>. Where the spec is silent the library's documentation is
  followed: \<open>New\<close> lower-cases the keys, and \<open>Join\<close> keeps the order of its arguments,
  the values of an earlier carrier coming first.
\<close>

type_synonym MD = "string \<rightharpoonup> string list"

text \<open>Go's \<open>md[name]\<close>: the values stored under a key, the nil slice for a missing key.\<close>

definition values_of :: "MD \<Rightarrow> string \<Rightarrow> string list" where
  "values_of md name = (case md name of None \<Rightarrow> [] | Some vs \<Rightarrow> vs)"

definition ToLower_char :: "char \<Rightarrow> char" where
  "ToLower_char c =
     (if 65 \<le> (of_char c :: nat) \<and> (of_char c :: nat) \<le> 90
      then char_of (of_char c + (32 :: nat)) else c)"

definition ToLower :: "string \<Rightarrow> string" where
  "ToLower k = map ToLower_char k"

text \<open>
  \<open>metadata.New\<close> takes a Go map from keys to single values (here the list of its
  entries), lower-cases each key and appends the value to that key's sequence. The two
  keys this file passes are distinct and in lower case, so the order in which Go walks
  the map does not show. \<open>ToLower\<close> is given for ASCII, which is all these keys contain.
\<close>

definition metadata_New :: "(string \<times> string) list \<Rightarrow> MD" where
  "metadata_New m =
     foldl (\<lambda>md (k, val). md(ToLower k \<mapsto> values_of md (ToLower k) @ [val])) Map.empty m"

text \<open>
  \<open>metadata.Join\<close> starts from an empty carrier and, for every carrier in argument order
  and every key of it, appends that key's values to the output's sequence for the key.
\<close>

definition metadata_Join :: "MD list \<Rightarrow> MD" where
  "metadata_Join mds =
     foldl (\<lambda>out md k. case md k of None \<Rightarrow> out k | Some v \<Rightarrow> Some (values_of out k @ v))
       Map.empty mds"

text \<open>
  Modelled from the spec: package \<open>google.golang.org/grpc/codes\<close> and \<open>grpc.Code\<close>, "a way
  to extract a status code string from an error", are not part of the sources. A Go
  \<open>error\<close> value is either a status produced by the RPC system, which carries a code, or any
  other error; \<open>nil\<close> is \<open>None\<close>.
\<close>

datatype codes =
    OK | Canceled | Unknown | InvalidArgument | DeadlineExceeded | NotFound
  | AlreadyExists | PermissionDenied | ResourceExhausted | FailedPrecondition
  | Aborted | OutOfRange | Unimplemented | Internal | Unavailable | DataLoss
  | Unauthenticated

datatype error = StatusError codes string | OtherError string

fun grpc_Code :: "error option \<Rightarrow> codes" where
  "grpc_Code None = OK"
| "grpc_Code (Some (StatusError c msg)) = c"
| "grpc_Code (Some (OtherError msg)) = Unknown"

fun code_String :: "codes \<Rightarrow> string" where
  "code_String OK = ''OK''"
| "code_String Canceled = ''Canceled''"
| "code_String Unknown = ''Unknown''"
| "code_String InvalidArgument = ''InvalidArgument''"
| "code_String DeadlineExceeded = ''DeadlineExceeded''"
| "code_String NotFound = ''NotFound''"
| "code_String AlreadyExists = ''AlreadyExists''"
| "code_String PermissionDenied = ''PermissionDenied''"
| "code_String ResourceExhausted = ''ResourceExhausted''"
| "code_String FailedPrecondition = ''FailedPrecondition''"
| "code_String Aborted = ''Aborted''"
| "code_String OutOfRange = ''OutOfRange''"
| "code_String Unimplemented = ''Unimplemented''"
| "code_String Internal = ''Internal''"
| "code_String Unavailable = ''Unavailable''"
| "code_String DataLoss = ''DataLoss''"
| "code_String Unauthenticated = ''Unauthenticated''"

subsection \<open>The tracer package: spans and the tracer\<close>

text \<open>
  Modelled from the spec: package \<open>tracer\<close> of this repository (\<open>Span\<close>, \<open>Tracer\<close>,
  \<open>NewRootSpan\<close>, \<open>SetMeta\<close>, \<open>FinishWithErr\<close>, \<open>ContextWithSpan\<close>, \<open>Enabled\<close>) is not
  part of the sources. The spec's span is "a unit of work with a TraceID (0 = unset), a
  ParentID (0 = unset/root), a kind/type tag, a service name, and a mapping of string
  keys to string values"; \<open>NewRootSpan(kind, service, resource)\<close> makes a span that
  "self-assigns fresh identifiers" and has "no known parent"; \<open>FinishWithErr\<close> finalizes
  the span, "recording the error (if any) as a span outcome attribute", and hands it "to
  the collaborating tracer for export".

  The tracer is a state: whether tracing is enabled, the identifiers its generator will
  hand out (\<open>ids\<close>, any sequence) with the number already issued, and the spans finished
  so far, oldest first. Spans are values here: the interceptor's own variable \<open>span\<close> is
  what the model follows, and nothing below reads a span back out of a context.
\<close>

record Span =
  Name :: string
  Service :: string
  Resource :: string
  Type :: string
  TraceID :: u64
  ParentID :: u64
  Meta :: "string \<rightharpoonup> string"
  Err :: "error option"

record tracer =
  enabled :: bool
  ids :: "nat \<Rightarrow> u64"
  issued :: nat
  finished :: "Span list"

definition Enabled :: "tracer \<Rightarrow> bool" where
  "Enabled t = enabled t"

definition NewRootSpan :: "tracer \<Rightarrow> string \<Rightarrow> string \<Rightarrow> string \<Rightarrow> Span \<times> tracer" where
  "NewRootSpan t name service resource =
     (\<lparr>Name = name, Service = service, Resource = resource, Type = [],
       TraceID = ids t (issued t), ParentID = 0, Meta = Map.empty, Err = None\<rparr>,
      t\<lparr>issued := Suc (issued t)\<rparr>)"

definition SetMeta :: "Span \<Rightarrow> string \<Rightarrow> string \<Rightarrow> Span" where
  "SetMeta span key val = span\<lparr>Meta := (Meta span)(key \<mapsto> val)\<rparr>"

definition FinishWithErr :: "Span \<Rightarrow> error option \<Rightarrow> tracer \<Rightarrow> tracer" where
  "FinishWithErr span err t = t\<lparr>finished := finished t @ [span\<lparr>Err := err\<rparr>]\<rparr>"

text \<open>
  A \<open>context.Context\<close>, as far as this file reads and writes it: the incoming metadata,
  the outgoing metadata and the active span, each of them possibly absent.
\<close>

record "context" =
  incoming :: "MD option"
  outgoing :: "MD option"
  active :: "Span option"

definition FromIncomingContext :: "context \<Rightarrow> MD option" where
  "FromIncomingContext ctx = incoming ctx"

definition NewOutgoingContext :: "context \<Rightarrow> MD \<Rightarrow> context" where
  "NewOutgoingContext ctx md = ctx\<lparr>outgoing := Some md\<rparr>"

definition ContextWithSpan :: "context \<Rightarrow> Span \<Rightarrow> context" where
  "ContextWithSpan ctx span = ctx\<lparr>active := Some span\<rparr>"

subsection \<open>The codec: \<open>setIDs\<close>, \<open>getIDs\<close>, \<open>getID\<close>\<close>

definition traceIDKey :: string where
  "traceIDKey = ''x-datadog-trace-id''"

definition parentIDKey :: string where
  "parentIDKey = ''x-datadog-parent-id''"

text \<open>
  \<open>setIDs\<close> takes a span pointer, \<open>None\<close> being \<open>nil\<close>. The existing carrier it joins
  with is the one of \<open>metadata.FromIncomingContext\<close>; the result is installed with
  \<open>metadata.NewOutgoingContext\<close>.
\<close>

definition setIDs :: "Span option \<Rightarrow> context \<Rightarrow> context" where
  "setIDs span ctx =
     (case span of
        None \<Rightarrow> ctx
      | Some sp \<Rightarrow>
          if TraceID sp = 0 then ctx
          else
            let md = metadata_New [(traceIDKey, Sprint (TraceID sp)),
                                   (parentIDKey, Sprint (ParentID sp))];
                md = (case FromIncomingContext ctx of
                        Some existing \<Rightarrow> metadata_Join [existing, md]
                      | None \<Rightarrow> md)
            in NewOutgoingContext ctx md)"

text \<open>
  \<open>getID\<close> walks the values of one key and returns the first that \<open>strconv.Atoi\<close>
  accepts, converted with \<open>uint64(id)\<close>; otherwise 0.
\<close>

fun getID_loop :: "string list \<Rightarrow> u64" where
  "getID_loop [] = 0"
| "getID_loop (str # rest) =
     (case Atoi str of
        Inr i \<Rightarrow> word_of_int i
      | Inl err \<Rightarrow> getID_loop rest)"

definition getID :: "MD \<Rightarrow> string \<Rightarrow> u64" where
  "getID md name = getID_loop (values_of md name)"

definition getIDs :: "context \<Rightarrow> u64 \<times> u64" where
  "getIDs ctx =
     (case FromIncomingContext ctx of
        Some md \<Rightarrow>
          (if getID md traceIDKey > 0 then getID md traceIDKey else 0,
           if getID md parentIDKey > 0 then getID md parentIDKey else 0)
      | None \<Rightarrow> (0, 0))"

subsection \<open>The interceptors\<close>

definition serverSpan :: "tracer \<Rightarrow> context \<Rightarrow> string \<Rightarrow> string \<Rightarrow> Span \<times> tracer" where
  "serverSpan t ctx method service =
     (let (span, t1) = NewRootSpan t ''grpc.server'' service method;
          span = SetMeta span ''gprc.method'' method;
          span = span\<lparr>Type := ''go''\<rparr>;
          (traceID, parentID) = getIDs ctx
      in (if traceID \<noteq> 0 \<and> parentID \<noteq> 0
          then span\<lparr>TraceID := traceID, ParentID := parentID\<rparr>
          else span,
          t1))"

text \<open>
  The closure returned by \<open>UnaryServerInterceptor\<close>, with the resolved \<open>cfg.serviceName\<close>
  and the state of \<open>cfg.tracer\<close> as arguments. The handler is any code: it takes the
  context and the request, may use the tracer, and returns a response and an error.
\<close>

type_synonym ('req, 'resp) UnaryHandler =
  "context \<Rightarrow> 'req \<Rightarrow> tracer \<Rightarrow> ('resp \<times> error option) \<times> tracer"

definition UnaryServerInterceptor ::
  "string \<Rightarrow> context \<Rightarrow> 'req \<Rightarrow> string \<Rightarrow> ('req, 'resp) UnaryHandler \<Rightarrow> tracer
     \<Rightarrow> ('resp \<times> error option) \<times> tracer" where
  "UnaryServerInterceptor serviceName ctx req FullMethod handler t =
     (if \<not> Enabled t then handler ctx req t
      else
        let (span, t1) = serverSpan t ctx FullMethod serviceName;
            ((resp, err), t2) = handler (ContextWithSpan ctx span) req t1;
            t3 = FinishWithErr span err t2
        in ((resp, err), t3))"

text \<open>
  The closure returned by \<open>UnaryClientInterceptor\<close>. \<open>tracer.StartSpanWithContext\<close> is
  not part of the sources and the spec does not say how the new span derives its
  identifiers from an ambient span, so it is the parameter \<open>StartSpan\<close>: any function that
  returns a span and a context and may change the tracer. The invoker fills \<open>reply\<close>
  through a pointer and returns an error: here it returns both.
\<close>

type_synonym StartSpanWithContext =
  "context \<Rightarrow> string \<Rightarrow> tracer \<Rightarrow> (Span \<times> context) \<times> tracer"

type_synonym ('req, 'reply, 'cc, 'opts) UnaryInvoker =
  "context \<Rightarrow> string \<Rightarrow> 'req \<Rightarrow> 'reply \<Rightarrow> 'cc \<Rightarrow> 'opts \<Rightarrow> tracer
     \<Rightarrow> ('reply \<times> error option) \<times> tracer"

definition UnaryClientInterceptor ::
  "StartSpanWithContext \<Rightarrow> context \<Rightarrow> string \<Rightarrow> 'req \<Rightarrow> 'reply \<Rightarrow> 'cc
     \<Rightarrow> ('req, 'reply, 'cc, 'opts) UnaryInvoker \<Rightarrow> 'opts \<Rightarrow> tracer
     \<Rightarrow> ('reply \<times> error option) \<times> tracer" where
  "UnaryClientInterceptor StartSpan ctx method req reply cc invoker opts t =
     (let ((span, ctx), t1) = StartSpan ctx ''grpc.client'' t;
          span = SetMeta span ''grpc.method'' method;
          ctx = setIDs (Some span) ctx;
          ((reply, err), t2) = invoker ctx method req reply cc opts t1;
          span = SetMeta span ''grpc.code'' (code_String (grpc_Code err));
          t3 = FinishWithErr span err t2
      in ((reply, err), t3))"

section \<open>Properties\<close>

subsection \<open>Decimal printing and parsing\<close>

lemma digit_char_props:
  assumes "d < 10"
  shows "is_digit (digit_char d)" and "digit_val (digit_char d) = d"
proof -
  from assms have "d \<in> {0, 1, 2, 3, 4, 5, 6, 7, 8, 9}" by auto
  then show "is_digit (digit_char d)" and "digit_val (digit_char d) = d"
    by (auto simp: is_digit_def digit_val_def digit_char_def)
qed

lemma is_digit_not_sign: "is_digit c \<Longrightarrow> c \<noteq> CHR ''+'' \<and> c \<noteq> CHR ''-''"
  by (auto simp: is_digit_def)

lemma ParseUint_loop_snoc:
  "ParseUint_loop n (cs @ [c]) =
     (case ParseUint_loop n cs of
        Inl e \<Rightarrow> Inl e
      | Inr m \<Rightarrow> ParseUint_loop m [c])"
  by (induction cs arbitrary: n) auto

lemma FormatUint_nonempty: "FormatUint u \<noteq> []"
  by (subst FormatUint.simps) simp

lemma FormatUint_digits: "c \<in> set (FormatUint u) \<Longrightarrow> is_digit c"
proof (induction u rule: FormatUint.induct)
  case (1 u)
  from "1.prems" have mem:
    "c \<in> set (if 10 \<le> u then FormatUint (u div 10) @ [digit_char (u mod 10)]
               else [digit_char u])"
    by (subst (asm) FormatUint.simps)
  show ?case
  proof (cases "10 \<le> u")
    case True
    with mem have "c \<in> set (FormatUint (u div 10)) \<or> c = digit_char (u mod 10)" by auto
    then show ?thesis
      using "1.IH" [OF True] digit_char_props(1) [of "u mod 10"] by auto
  next
    case False
    with mem have "c = digit_char u" by simp
    then show ?thesis using False digit_char_props(1) [of u] by simp
  qed
qed

lemma ParseUint_loop_FormatUint:
  "u \<le> maxUint64 \<Longrightarrow> ParseUint_loop 0 (FormatUint u) = Inr u"
proof (induction u rule: FormatUint.induct)
  case (1 u)
  show ?case
  proof (cases "10 \<le> u")
    case True
    have le: "u div 10 \<le> maxUint64" using "1.prems" by simp
    have ih: "ParseUint_loop 0 (FormatUint (u div 10)) = Inr (u div 10)"
      using "1.IH" [OF True le] .
    have d: "is_digit (digit_char (u mod 10))" "digit_val (digit_char (u mod 10)) = u mod 10"
      using digit_char_props [of "u mod 10"] by simp_all
    have c: "u div 10 < cutoff" using "1.prems" by (simp add: cutoff_def maxUint64_def)
    have "ParseUint_loop 0 (FormatUint u)
            = ParseUint_loop (u div 10) [digit_char (u mod 10)]"
      using True ih by (subst FormatUint.simps) (simp add: ParseUint_loop_snoc)
    also have "\<dots> = Inr u"
      using d c "1.prems" by simp
    finally show ?thesis .
  next
    case False
    then have "u < 10" by simp
    then show ?thesis
      using digit_char_props [of u]
      by (subst FormatUint.simps) (simp add: cutoff_def maxUint64_def)
  qed
qed

lemma Atoi_FormatUint:
  assumes "u \<le> maxUint64"
  shows "Atoi (FormatUint u) = (if u < 2 ^ 63 then Inr (int u) else Inl ErrRange)"
proof -
  obtain c cs where s: "FormatUint u = c # cs"
    using FormatUint_nonempty [of u] by (cases "FormatUint u") auto
  then have "is_digit c" using FormatUint_digits [of c u] by simp
  then have ns: "c \<noteq> CHR ''+''" "c \<noteq> CHR ''-''" using is_digit_not_sign by auto
  have "ParseUint (c # cs) = Inr u"
    using ParseUint_loop_FormatUint [OF assms] s by (simp add: ParseUint_def)
  then show ?thesis
    using ns s by (simp add: Atoi_def ParseInt_def)
qed

lemma Atoi_Sprint:
  "Atoi (Sprint x) = (if unat x < 2 ^ 63 then Inr (uint x) else Inl ErrRange)"
proof -
  have "unat x < 2 ^ 64" using unsigned_less [of x] by simp
  then have "unat x \<le> maxUint64" by (simp add: maxUint64_def)
  then show ?thesis
    using Atoi_FormatUint [of "unat x"] by (simp add: Sprint_def)
qed

lemma Atoi_range:
  assumes "Atoi s = Inr n"
  shows "- (2 ^ 63) \<le> n \<and> n < 2 ^ 63"
proof (cases s)
  case Nil
  with assms show ?thesis by (simp add: Atoi_def ParseInt_def)
next
  case (Cons c cs)
  with assms show ?thesis
    by (auto simp: Atoi_def ParseInt_def Let_def split: sum.splits if_splits)
qed

lemma word_of_int_zero_iff:
  assumes "- (2 ^ 63) \<le> n" and "n < 2 ^ 63"
  shows "(word_of_int n = (0 :: u64)) = (n = 0)"
proof
  assume "word_of_int n = (0 :: u64)"
  then have "(2 :: int) ^ 64 dvd n" by (simp add: word_of_int_eq_0_iff)
  then obtain k where k: "n = 2 ^ 64 * k" by (auto simp: dvd_def)
  with assms have "k = 0" by auto
  with k show "n = 0" by simp
next
  assume "n = 0" then show "word_of_int n = (0 :: u64)" by simp
qed

subsection \<open>The carrier\<close>

lemma keys_distinct: "traceIDKey \<noteq> parentIDKey"
  by (simp add: traceIDKey_def parentIDKey_def)

lemma ToLower_keys: "ToLower traceIDKey = traceIDKey" "ToLower parentIDKey = parentIDKey"
  by (simp_all add: ToLower_def ToLower_char_def traceIDKey_def parentIDKey_def)

lemma metadata_New_pair:
  "metadata_New [(traceIDKey, a), (parentIDKey, b)] k =
     (if k = traceIDKey then Some [a] else if k = parentIDKey then Some [b] else None)"
  using keys_distinct by (auto simp: metadata_New_def ToLower_keys values_of_def)

lemma metadata_Join_pair:
  "metadata_Join [e, m] k =
     (case m k of None \<Rightarrow> e k | Some v \<Rightarrow> Some (values_of e k @ v))"
  by (simp add: metadata_Join_def values_of_def split: option.splits)

lemma setIDs_outgoing_values:
  assumes "TraceID sp \<noteq> 0"
  shows "\<exists>md. outgoing (setIDs (Some sp) ctx) = Some md \<and>
           (\<forall>k. values_of md k =
                  values_of (case incoming ctx of None \<Rightarrow> Map.empty | Some e \<Rightarrow> e) k @
                    (if k = traceIDKey then [Sprint (TraceID sp)]
                     else if k = parentIDKey then [Sprint (ParentID sp)] else []))"
  using assms
  by (cases "incoming ctx")
     (auto simp: setIDs_def FromIncomingContext_def NewOutgoingContext_def Let_def
        values_of_def metadata_New_pair metadata_Join_pair split: option.splits)

lemma getIDs_incoming:
  "incoming ctx = Some md \<Longrightarrow> getIDs ctx = (getID md traceIDKey, getID md parentIDKey)"
  by (auto simp: getIDs_def FromIncomingContext_def word_gt_0)

lemma getIDs_no_incoming: "incoming ctx = None \<Longrightarrow> getIDs ctx = (0, 0)"
  by (simp add: getIDs_def FromIncomingContext_def)

lemma roundtrip_below_2_63:
  assumes "TraceID sp \<noteq> 0"
    and "unat (TraceID sp) < 2 ^ 63" and "unat (ParentID sp) < 2 ^ 63"
    and "incoming ctx = None"
  shows "getIDs \<lparr>incoming = outgoing (setIDs (Some sp) ctx), outgoing = None, active = None\<rparr>
           = (TraceID sp, ParentID sp)"
proof -
  obtain md where md: "outgoing (setIDs (Some sp) ctx) = Some md"
    and vals: "\<And>k. values_of md k =
                 (if k = traceIDKey then [Sprint (TraceID sp)]
                  else if k = parentIDKey then [Sprint (ParentID sp)] else [])"
    using setIDs_outgoing_values [OF assms(1), of ctx] assms(4) by (auto simp: values_of_def)
  have "getID md traceIDKey = TraceID sp"
    using assms(2) by (simp add: getID_def vals Atoi_Sprint)
  moreover have "getID md parentIDKey = ParentID sp"
    using assms(3) keys_distinct by (simp add: getID_def vals Atoi_Sprint)
  ultimately show ?thesis
    using md by (simp add: getIDs_incoming)
qed

lemmas eval_strconv = Atoi_def ParseInt_def ParseUint_def is_digit_def digit_val_def
  cutoff_def maxUint64_def Sprint_def FormatUint.simps digit_char_def

lemmas eval_codec = metadata_New_def metadata_Join_def values_of_def ToLower_def
  ToLower_char_def traceIDKey_def parentIDKey_def FromIncomingContext_def
  NewOutgoingContext_def setIDs_def getIDs_def getID_def

subsection \<open>Round trip through the carrier\<close>

text \<open>
  What does hold: a span whose two identifiers are below \<open>2 ^ 63\<close>, encoded by \<open>setIDs\<close>
  on a context without incoming metadata and handed to \<open>getIDs\<close> as incoming metadata,
  comes back unchanged (lemma \<open>roundtrip_below_2_63\<close> above).

  Claim C1 asks this of every pair of non-zero 64-bit identifiers. At the trace identifier
  \<open>2 ^ 63 = 9223372036854775808\<close> and the parent identifier 1, \<open>setIDs\<close> writes the
  nineteen digits of \<open>2 ^ 63\<close>, \<open>strconv.Atoi\<close> rejects them as out of the range of
  \<open>int\<close>, \<open>getID\<close> falls through to 0, and the decoded pair is \<open>(0, 1)\<close>.
\<close>

theorem C1_roundtrip_fails_above_int64:
  "getIDs \<lparr>incoming =
      outgoing (setIDs
        (Some \<lparr>Name = ''grpc.client'', Service = [], Resource = [], Type = [],
               TraceID = 9223372036854775808, ParentID = 1, Meta = Map.empty, Err = None\<rparr>)
        \<lparr>incoming = None, outgoing = None, active = None\<rparr>),
     outgoing = None, active = None\<rparr> = (0, 1)"
  by (simp add: eval_strconv eval_codec)

subsection \<open>Partial pairs\<close>

text \<open>
  Claim C2 says that decoding never yields exactly one non-zero identifier. A carrier that
  holds only the trace key, with the value \<open>5\<close>, is decoded by \<open>getIDs\<close> to \<open>(5, 0)\<close>.
\<close>

theorem C2_partial_pair_decoded:
  "getIDs \<lparr>incoming = Some [traceIDKey \<mapsto> [''5'']], outgoing = None, active = None\<rparr> = (5, 0)"
  by (simp add: eval_strconv eval_codec)

text \<open>
  Claim C2 as amended: when exactly one of the two keys of the incoming carrier yields a
  non-zero identifier, \<open>getIDs\<close> returns the pair as decoded, and it is the caller
  \<open>serverSpan\<close> that treats the pair as absent: the new span keeps the \<open>TraceID\<close> and the
  \<open>ParentID\<close> that \<open>NewRootSpan\<close> gave it.
\<close>

theorem C2_partial_pair_left_to_caller:
  assumes "incoming ctx = Some md"
    and "(getID md traceIDKey = 0) \<noteq> (getID md parentIDKey = 0)"
  shows "getIDs ctx = (getID md traceIDKey, getID md parentIDKey) \<and>
         TraceID (fst (serverSpan t ctx method service))
           = TraceID (fst (NewRootSpan t ''grpc.server'' service method)) \<and>
         ParentID (fst (serverSpan t ctx method service))
           = ParentID (fst (NewRootSpan t ''grpc.server'' service method))"
proof -
  have g: "getIDs ctx = (getID md traceIDKey, getID md parentIDKey)"
    using assms(1) by (rule getIDs_incoming)
  have "\<not> (getID md traceIDKey \<noteq> 0 \<and> getID md parentIDKey \<noteq> 0)"
    using assms(2) by auto
  then show ?thesis
    using g by (auto simp: serverSpan_def NewRootSpan_def SetMeta_def)
qed

text \<open>
  The amended claim C2 at a carrier that holds only the parent key, with the value \<open>8\<close>,
  and a tracer whose generator hands out 77.
\<close>

theorem C2_partial_pair_left_to_caller_witness:
  "getIDs \<lparr>incoming = Some [parentIDKey \<mapsto> [''8'']], outgoing = None, active = None\<rparr> = (0, 8) \<and>
   TraceID (fst (serverSpan \<lparr>enabled = True, ids = (\<lambda>n. 77), issued = 0, finished = []\<rparr>
       \<lparr>incoming = Some [parentIDKey \<mapsto> [''8'']], outgoing = None, active = None\<rparr>
       ''/pkg.Service/Method'' ''grpc.server'')) = 77 \<and>
   ParentID (fst (serverSpan \<lparr>enabled = True, ids = (\<lambda>n. 77), issued = 0, finished = []\<rparr>
       \<lparr>incoming = Some [parentIDKey \<mapsto> [''8'']], outgoing = None, active = None\<rparr>
       ''/pkg.Service/Method'' ''grpc.server'')) = 0"
  using C2_partial_pair_left_to_caller
    [of "\<lparr>incoming = Some [parentIDKey \<mapsto> [''8'']], outgoing = None, active = None\<rparr>"
        "[parentIDKey \<mapsto> [''8'']]"
        "\<lparr>enabled = True, ids = (\<lambda>n. 77), issued = 0, finished = []\<rparr>"
        "''/pkg.Service/Method''" "''grpc.server''"]
  by (simp add: eval_strconv eval_codec NewRootSpan_def)

text \<open>
  What does hold for a carrier with one key: when one of the two trace keys is missing
  and the first value of the other is accepted by \<open>strconv.Atoi\<close> as \<open>n \<noteq> 0\<close>, \<open>getIDs\<close>
  returns \<open>uint64(n)\<close>, which is not 0, for the key that is set and 0 for the missing one,
  and no check of the pair is made. For a positive \<open>n\<close> the identifier has the value \<open>n\<close>.
\<close>

lemma getIDs_one_key_accepted:
  assumes "incoming ctx = Some md" and "Atoi s = Inr n" and "n \<noteq> 0"
  shows "(md traceIDKey = Some (s # rest) \<and> md parentIDKey = None
            \<longrightarrow> getIDs ctx = (word_of_int n, 0) \<and> word_of_int n \<noteq> (0 :: u64)) \<and>
         (md parentIDKey = Some (s # rest) \<and> md traceIDKey = None
            \<longrightarrow> getIDs ctx = (0, word_of_int n) \<and> word_of_int n \<noteq> (0 :: u64)) \<and>
         (0 < n \<longrightarrow> uint (word_of_int n :: u64) = n)"
proof -
  have r: "- (2 ^ 63) \<le> n" "n < 2 ^ 63"
    using Atoi_range [OF assms(2)] by auto
  have nz: "word_of_int n \<noteq> (0 :: u64)"
    using word_of_int_zero_iff [OF r] assms(3) by simp
  have pos: "0 < n \<longrightarrow> uint (word_of_int n :: u64) = n"
  proof
    assume "0 < n"
    then have "n mod 2 ^ 64 = n" using r by simp
    then show "uint (word_of_int n :: u64) = n" by (simp add: uint_word_of_int)
  qed
  show ?thesis
    using nz pos assms(2) getIDs_incoming [OF assms(1)]
    by (auto simp: getID_def values_of_def)
qed

text \<open>
  Claim C3 says that a carrier in which only one of the two trace keys is set, to a
  parseable non-zero value, decodes to that value and 0. The identifiers are decimal
  strings of 64-bit unsigned integers. A carrier that holds only the trace key, with the
  value \<open>9223372036854775808 = 2 ^ 63\<close>, is decoded by \<open>getIDs\<close> to \<open>(0, 0)\<close>:
  \<open>strconv.Atoi\<close> rejects the value as out of the range of \<open>int\<close> and \<open>getID\<close> falls
  through to 0, so the value of the key that is set is not honored.
\<close>

theorem C3_single_key_above_int64_lost:
  "getIDs \<lparr>incoming = Some [traceIDKey \<mapsto> [''9223372036854775808'']],
            outgoing = None, active = None\<rparr> = (0, 0)"
  by (simp add: eval_strconv eval_codec)

subsection \<open>What \<open>getID\<close> returns\<close>

lemma getID_absent: "md name = None \<Longrightarrow> getID md name = 0"
  by (simp add: getID_def values_of_def)

lemma getID_loop_first_accepted:
  assumes "list_all (\<lambda>s. isl (Atoi s)) pre" and "Atoi s = Inr n"
  shows "getID_loop (pre @ s # rest) = word_of_int n"
  using assms by (induction pre) (auto simp: isl_def)

lemma getID_loop_none_accepted:
  "list_all (\<lambda>s. isl (Atoi s)) vs \<Longrightarrow> getID_loop vs = 0"
  by (induction vs) (auto simp: isl_def)

lemma getID_first_accepted:
  assumes "md name = Some (pre @ s # rest)"
    and "list_all (\<lambda>s. isl (Atoi s)) pre" and "Atoi s = Inr n"
  shows "getID md name = word_of_int n"
  using assms getID_loop_first_accepted [of pre s n rest]
  by (simp add: getID_def values_of_def)

lemma getID_none_accepted:
  assumes "md name = Some vs" and "list_all (\<lambda>s. isl (Atoi s)) vs"
  shows "getID md name = 0"
  using assms getID_loop_none_accepted [of vs] by (simp add: getID_def values_of_def)

subsection \<open>What \<open>setIDs\<close> joins with\<close>

text \<open>
  Claim C4 says that \<open>setIDs\<close> merges the two trace entries into a carrier already
  present on the outgoing path, so that an unrelated key of that carrier survives. On a
  context whose outgoing metadata holds \<open>x-request-id: abc\<close> (and which has no incoming
  metadata) and a span with the identifiers 1 and 2, the carrier that \<open>setIDs\<close> installs
  holds the two trace keys and has no entry for \<open>x-request-id\<close>.
\<close>

theorem C4_outgoing_key_dropped:
  "map_option (\<lambda>md. (md ''x-request-id'', md traceIDKey, md parentIDKey))
     (outgoing (setIDs
        (Some \<lparr>Name = ''grpc.client'', Service = [], Resource = [], Type = [],
               TraceID = 1, ParentID = 2, Meta = Map.empty, Err = None\<rparr>)
        \<lparr>incoming = None, outgoing = Some [''x-request-id'' \<mapsto> [''abc'']], active = None\<rparr>))
   = Some (None, Some [''1''], Some [''2''])"
  by (simp add: eval_strconv eval_codec)

subsection \<open>Which values \<open>getID\<close> accepts\<close>

text \<open>
  Claim C5 says that \<open>getID\<close> returns the first value that parses as a non-negative
  integer and skips the others. For the values \<open>-5\<close>, \<open>7\<close> under the trace key, in this
  order, \<open>getID\<close> does not skip \<open>-5\<close>: \<open>strconv.Atoi\<close> accepts it, and \<open>uint64(-5)\<close> is
  \<open>2 ^ 64 - 5 = 18446744073709551611\<close>.
\<close>

theorem C5_negative_value_decoded:
  "getID [traceIDKey \<mapsto> [''-5'', ''7'']] traceIDKey = 18446744073709551611"
  by (simp add: eval_strconv eval_codec)

subsection \<open>The server interceptor\<close>

text \<open>
  Claim C6: with tracing enabled, the server interceptor makes one new span with
  \<open>serverSpan\<close> (the tracer issues one identifier, the span's name is \<open>grpc.server\<close>),
  runs the handler on the context that carries it and finishes it. The span's \<open>TraceID\<close>
  and \<open>ParentID\<close> are the decoded identifiers when both are non-zero, and otherwise the
  ones \<open>NewRootSpan\<close> assigned.
\<close>

theorem C6_server_span_identifiers:
  assumes "Enabled t"
  shows
    "(let sp = fst (serverSpan t ctx method service);
          t1 = snd (serverSpan t ctx method service);
          root = fst (NewRootSpan t ''grpc.server'' service method);
          r = handler (ContextWithSpan ctx sp) req t1
      in UnaryServerInterceptor service ctx req method handler t
           = (fst r, FinishWithErr sp (snd (fst r)) (snd r)) \<and>
         issued t1 = Suc (issued t) \<and>
         Name sp = ''grpc.server'' \<and>
         (if fst (getIDs ctx) \<noteq> 0 \<and> snd (getIDs ctx) \<noteq> 0
          then TraceID sp = fst (getIDs ctx) \<and> ParentID sp = snd (getIDs ctx)
          else TraceID sp = TraceID root \<and> ParentID sp = ParentID root))"
  using assms
  by (simp add: UnaryServerInterceptor_def serverSpan_def NewRootSpan_def SetMeta_def
      Let_def split_beta)

text \<open>
  Claim C6 at a carrier with both identifiers (5 and 6: continuation) and at a carrier
  with the trace identifier only (new root, with the generator's 77).
\<close>

theorem C6_server_span_identifiers_witness:
  "Enabled \<lparr>enabled = True, ids = (\<lambda>n. 77), issued = 0, finished = []\<rparr> \<and>
   TraceID (fst (serverSpan \<lparr>enabled = True, ids = (\<lambda>n. 77), issued = 0, finished = []\<rparr>
      \<lparr>incoming = Some [traceIDKey \<mapsto> [''5''], parentIDKey \<mapsto> [''6'']],
        outgoing = None, active = None\<rparr> ''/pkg.Service/Method'' ''grpc.server'')) = 5 \<and>
   ParentID (fst (serverSpan \<lparr>enabled = True, ids = (\<lambda>n. 77), issued = 0, finished = []\<rparr>
      \<lparr>incoming = Some [traceIDKey \<mapsto> [''5''], parentIDKey \<mapsto> [''6'']],
        outgoing = None, active = None\<rparr> ''/pkg.Service/Method'' ''grpc.server'')) = 6 \<and>
   TraceID (fst (serverSpan \<lparr>enabled = True, ids = (\<lambda>n. 77), issued = 0, finished = []\<rparr>
      \<lparr>incoming = Some [traceIDKey \<mapsto> [''5'']],
        outgoing = None, active = None\<rparr> ''/pkg.Service/Method'' ''grpc.server'')) = 77 \<and>
   ParentID (fst (serverSpan \<lparr>enabled = True, ids = (\<lambda>n. 77), issued = 0, finished = []\<rparr>
      \<lparr>incoming = Some [traceIDKey \<mapsto> [''5'']],
        outgoing = None, active = None\<rparr> ''/pkg.Service/Method'' ''grpc.server'')) = 0"
  using
    C6_server_span_identifiers
      [of "\<lparr>enabled = True, ids = (\<lambda>n. 77), issued = 0, finished = []\<rparr>"
          "\<lparr>incoming = Some [traceIDKey \<mapsto> [''5''], parentIDKey \<mapsto> [''6'']],
             outgoing = None, active = None\<rparr>"
          "''/pkg.Service/Method''" "''grpc.server''"
          "\<lambda>c r tr. ((r, None), tr)" "0 :: nat"]
    C6_server_span_identifiers
      [of "\<lparr>enabled = True, ids = (\<lambda>n. 77), issued = 0, finished = []\<rparr>"
          "\<lparr>incoming = Some [traceIDKey \<mapsto> [''5'']],
             outgoing = None, active = None\<rparr>"
          "''/pkg.Service/Method''" "''grpc.server''"
          "\<lambda>c r tr. ((r, None), tr)" "0 :: nat"]
  by (simp add: Enabled_def Let_def eval_strconv eval_codec NewRootSpan_def)

text \<open>
  Claim C7: with tracing disabled, the interceptor's result is the handler's, called
  with the context, the request and the tracer state as they came in. The tracer state
  returned is the one the handler left: the interceptor itself issues no identifier,
  creates and finishes no span, and the carrier is not decoded.
\<close>

theorem C7_disabled_passthrough:
  "\<not> Enabled t \<Longrightarrow> UnaryServerInterceptor service ctx req method handler t = handler ctx req t"
  by (simp add: UnaryServerInterceptor_def)

text \<open>
  Claim C7 at a disabled tracer and a handler that fails: response, error and tracer
  state come back as the handler returned them, although the carrier holds both keys.
\<close>

theorem C7_disabled_passthrough_witness:
  "\<not> Enabled \<lparr>enabled = False, ids = (\<lambda>n. 77), issued = 3, finished = []\<rparr> \<and>
   UnaryServerInterceptor ''grpc.server''
     \<lparr>incoming = Some [traceIDKey \<mapsto> [''5''], parentIDKey \<mapsto> [''6'']],
       outgoing = None, active = None\<rparr>
     ''ping'' ''/pkg.Service/Method''
     (\<lambda>c r tr. ((r @ ''-pong'', Some (OtherError ''boom'')), tr))
     \<lparr>enabled = False, ids = (\<lambda>n. 77), issued = 3, finished = []\<rparr>
   = ((''ping-pong'', Some (OtherError ''boom'')),
      \<lparr>enabled = False, ids = (\<lambda>n. 77), issued = 3, finished = []\<rparr>)"
  using C7_disabled_passthrough
    [of "\<lparr>enabled = False, ids = (\<lambda>n. 77), issued = 3, finished = []\<rparr>"
        "''grpc.server''"
        "\<lparr>incoming = Some [traceIDKey \<mapsto> [''5''], parentIDKey \<mapsto> [''6'']],
          outgoing = None, active = None\<rparr>"
        "''ping''" "''/pkg.Service/Method''"
        "\<lambda>c r tr. ((r @ ''-pong'', Some (OtherError ''boom'')), tr)"]
  by (simp add: Enabled_def)


subsection \<open>Results and errors of the wrapped call\<close>

text \<open>
  Claim C8: the server interceptor returns the response and the error of the handler,
  and the client interceptor the reply and the error of the invoker, as they are. With
  tracing enabled the server finishes its span with that error; the client finishes its
  span with that error and with the tag \<open>grpc.code\<close> set to the name of the error's
  status code.
\<close>

theorem C8_call_result_passed_through:
  "(let sp = fst (serverSpan t ctx method service);
        t1 = snd (serverSpan t ctx method service);
        h = (if Enabled t then handler (ContextWithSpan ctx sp) req t1 else handler ctx req t);
        s = UnaryServerInterceptor service ctx req method handler t
    in fst s = fst h \<and>
       finished (snd s) =
         (if Enabled t then finished (snd h) @ [sp\<lparr>Err := snd (fst s)\<rparr>] else finished (snd h))) \<and>
   (let sp = SetMeta (fst (fst (StartSpan cctx ''grpc.client'' t))) ''grpc.method'' cmethod;
        i = invoker (setIDs (Some sp) (snd (fst (StartSpan cctx ''grpc.client'' t))))
              cmethod creq reply cc opts (snd (StartSpan cctx ''grpc.client'' t));
        c = UnaryClientInterceptor StartSpan cctx cmethod creq reply cc invoker opts t
    in fst c = fst i \<and>
       finished (snd c) =
         finished (snd i) @
           [(SetMeta sp ''grpc.code'' (code_String (grpc_Code (snd (fst c)))))
              \<lparr>Err := snd (fst c)\<rparr>])"
  by (simp add: UnaryServerInterceptor_def UnaryClientInterceptor_def FinishWithErr_def
      Let_def split_beta)

text \<open>
  Claim C8 at a handler and an invoker that fail with the status \<open>NotFound\<close>.
\<close>

theorem C8_call_result_passed_through_witness:
  "fst (UnaryServerInterceptor ''grpc.server''
          \<lparr>incoming = None, outgoing = None, active = None\<rparr> ''ping'' ''/pkg.Service/Method''
          (\<lambda>c r tr. ((r @ ''-pong'', Some (StatusError NotFound ''gone'')), tr))
          \<lparr>enabled = True, ids = (\<lambda>n. 77), issued = 0, finished = []\<rparr>)
     = (''ping-pong'', Some (StatusError NotFound ''gone'')) \<and>
   map Err (finished (snd (UnaryServerInterceptor ''grpc.server''
          \<lparr>incoming = None, outgoing = None, active = None\<rparr> ''ping'' ''/pkg.Service/Method''
          (\<lambda>c r tr. ((r @ ''-pong'', Some (StatusError NotFound ''gone'')), tr))
          \<lparr>enabled = True, ids = (\<lambda>n. 77), issued = 0, finished = []\<rparr>)))
     = [Some (StatusError NotFound ''gone'')] \<and>
   fst (UnaryClientInterceptor
          (\<lambda>c name tr. ((\<lparr>Name = name, Service = [], Resource = name, Type = [],
              TraceID = 9, ParentID = 9, Meta = Map.empty, Err = None\<rparr>, c), tr))
          \<lparr>incoming = None, outgoing = None, active = None\<rparr> ''/pkg.Service/Method''
          ''ping'' ''old'' () (\<lambda>c m rq rp cn os tr. ((rq @ ''-pong'', Some (StatusError NotFound ''gone'')), tr)) ()
          \<lparr>enabled = True, ids = (\<lambda>n. 77), issued = 0, finished = []\<rparr>)
     = (''ping-pong'', Some (StatusError NotFound ''gone'')) \<and>
   map (\<lambda>sp. (Err sp, Meta sp ''grpc.code''))
     (finished (snd (UnaryClientInterceptor
          (\<lambda>c name tr. ((\<lparr>Name = name, Service = [], Resource = name, Type = [],
              TraceID = 9, ParentID = 9, Meta = Map.empty, Err = None\<rparr>, c), tr))
          \<lparr>incoming = None, outgoing = None, active = None\<rparr> ''/pkg.Service/Method''
          ''ping'' ''old'' () (\<lambda>c m rq rp cn os tr. ((rq @ ''-pong'', Some (StatusError NotFound ''gone'')), tr)) ()
          \<lparr>enabled = True, ids = (\<lambda>n. 77), issued = 0, finished = []\<rparr>)))
     = [(Some (StatusError NotFound ''gone''), Some ''NotFound'')]"
  using C8_call_result_passed_through
    [of "\<lparr>enabled = True, ids = (\<lambda>n. 77), issued = 0, finished = []\<rparr>"
        "\<lparr>incoming = None, outgoing = None, active = None\<rparr>"
        "''/pkg.Service/Method''" "''grpc.server''"
        "\<lambda>c r tr. ((r @ ''-pong'', Some (StatusError NotFound ''gone'')), tr)" "''ping''"
        "\<lambda>c name tr. ((\<lparr>Name = name, Service = [], Resource = name, Type = [],
              TraceID = 9, ParentID = 9, Meta = Map.empty, Err = None\<rparr>, c), tr)"
        "\<lparr>incoming = None, outgoing = None, active = None\<rparr>" "''/pkg.Service/Method''"
        "\<lambda>c m rq rp cn os tr. ((rq @ ''-pong'', Some (StatusError NotFound ''gone'')), tr)"
        "''ping''" "''old''" "()" "()"]
  by (simp add: Enabled_def Let_def SetMeta_def serverSpan_def NewRootSpan_def eval_codec
      split_beta)

subsection \<open>The carrier that \<open>setIDs\<close> installs\<close>

text \<open>
  Claim C9: for a span with a non-zero \<open>TraceID\<close>, the outgoing carrier that \<open>setIDs\<close>
  installs holds, under every key, the values of the incoming carrier followed by the
  new trace entry if the key is a trace key; an incoming key other than the two trace
  keys is forwarded as it is. The metadata attached to the outgoing context before plays
  no part in the result, and the incoming metadata is left in place.
\<close>

theorem C9_incoming_forwarded_outgoing_replaced:
  assumes "TraceID sp \<noteq> 0"
  shows
    "(\<exists>md. outgoing (setIDs (Some sp) ctx) = Some md \<and>
        (\<forall>k. values_of md k =
               values_of (case incoming ctx of None \<Rightarrow> Map.empty | Some e \<Rightarrow> e) k @
                 (if k = traceIDKey then [Sprint (TraceID sp)]
                  else if k = parentIDKey then [Sprint (ParentID sp)] else [])) \<and>
        (\<forall>k e. incoming ctx = Some e \<and> k \<noteq> traceIDKey \<and> k \<noteq> parentIDKey \<longrightarrow> md k = e k)) \<and>
     setIDs (Some sp) (ctx\<lparr>outgoing := og\<rparr>) = setIDs (Some sp) ctx \<and>
     incoming (setIDs (Some sp) ctx) = incoming ctx"
  using assms
  by (cases "incoming ctx")
     (auto simp: setIDs_def FromIncomingContext_def NewOutgoingContext_def Let_def
        values_of_def metadata_New_pair metadata_Join_pair split: option.splits)

text \<open>
  Claim C9 at a context with the incoming entries \<open>authorization: secret\<close> and
  \<open>x-datadog-parent-id: 8\<close> and the outgoing entry \<open>x-request-id: abc\<close>.
\<close>

theorem C9_incoming_forwarded_outgoing_replaced_witness:
  "TraceID \<lparr>Name = ''grpc.client'', Service = [], Resource = [], Type = [],
            TraceID = 7, ParentID = 9, Meta = Map.empty, Err = None\<rparr> \<noteq> 0 \<and>
   (\<exists>md. outgoing (setIDs
        (Some \<lparr>Name = ''grpc.client'', Service = [], Resource = [], Type = [],
               TraceID = 7, ParentID = 9, Meta = Map.empty, Err = None\<rparr>)
        \<lparr>incoming = Some [''authorization'' \<mapsto> [''secret''], parentIDKey \<mapsto> [''8'']],
          outgoing = Some [''x-request-id'' \<mapsto> [''abc'']], active = None\<rparr>) = Some md \<and>
      md ''authorization'' = Some [''secret''] \<and>
      values_of md traceIDKey = [''7''] \<and>
      values_of md parentIDKey = [''8'', ''9''] \<and>
      md ''x-request-id'' = None)"
  using C9_incoming_forwarded_outgoing_replaced
    [of "\<lparr>Name = ''grpc.client'', Service = [], Resource = [], Type = [],
               TraceID = 7, ParentID = 9, Meta = Map.empty, Err = None\<rparr>"
        "\<lparr>incoming = Some [''authorization'' \<mapsto> [''secret''], parentIDKey \<mapsto> [''8'']],
          outgoing = Some [''x-request-id'' \<mapsto> [''abc'']], active = None\<rparr>"
        "None"]
  by (simp add: eval_strconv eval_codec)

subsection \<open>The tag that carries the method name\<close>

text \<open>
  Claim C10: the server span carries the method name under the key \<open>gprc.method\<close>;
  \<open>serverSpan\<close> writes nothing under \<open>grpc.method\<close>, which stays as \<open>NewRootSpan\<close> left
  it, that is absent. This is so for the span \<open>serverSpan\<close> returns and for the span the
  server interceptor finishes. The span the client interceptor finishes carries the method
  name under \<open>grpc.method\<close>.
\<close>

theorem C10_method_tag_keys:
  assumes "Enabled t"
  shows
    "Meta (fst (serverSpan t ctx method service)) ''gprc.method'' = Some method \<and>
     Meta (fst (serverSpan t ctx method service)) ''grpc.method''
       = Meta (fst (NewRootSpan t ''grpc.server'' service method)) ''grpc.method'' \<and>
     Meta (fst (serverSpan t ctx method service)) ''grpc.method'' = None \<and>
     Meta (last (finished (snd (UnaryServerInterceptor service ctx req method handler t))))
       ''gprc.method'' = Some method \<and>
     Meta (last (finished (snd (UnaryServerInterceptor service ctx req method handler t))))
       ''grpc.method'' = None \<and>
     Meta (last (finished (snd
        (UnaryClientInterceptor StartSpan cctx cmethod creq reply cc invoker opts t))))
       ''grpc.method'' = Some cmethod"
  using assms
  by (simp add: UnaryServerInterceptor_def UnaryClientInterceptor_def serverSpan_def
      NewRootSpan_def SetMeta_def FinishWithErr_def Let_def split_beta)

text \<open>
  Claim C10 at the method \<open>/pkg.Service/Method\<close>.
\<close>

theorem C10_method_tag_keys_witness:
  "Enabled \<lparr>enabled = True, ids = (\<lambda>n. 77), issued = 0, finished = []\<rparr> \<and>
   Meta (fst (serverSpan \<lparr>enabled = True, ids = (\<lambda>n. 77), issued = 0, finished = []\<rparr>
           \<lparr>incoming = None, outgoing = None, active = None\<rparr>
           ''/pkg.Service/Method'' ''grpc.server''))
     = [''gprc.method'' \<mapsto> ''/pkg.Service/Method''] \<and>
   map (\<lambda>sp. Meta sp ''grpc.method'')
     (finished (snd (UnaryClientInterceptor
          (\<lambda>c name tr. ((\<lparr>Name = name, Service = [], Resource = name, Type = [],
              TraceID = 9, ParentID = 9, Meta = Map.empty, Err = None\<rparr>, c), tr))
          \<lparr>incoming = None, outgoing = None, active = None\<rparr> ''/pkg.Service/Method''
          ''ping'' ''old'' () (\<lambda>c m rq rp cn os tr. ((rq @ ''-pong'', None), tr)) ()
          \<lparr>enabled = True, ids = (\<lambda>n. 77), issued = 0, finished = []\<rparr>)))
     = [Some ''/pkg.Service/Method'']"
  using C10_method_tag_keys
    [of "\<lparr>enabled = True, ids = (\<lambda>n. 77), issued = 0, finished = []\<rparr>"
        "\<lparr>incoming = None, outgoing = None, active = None\<rparr>"
        "''/pkg.Service/Method''" "''grpc.server''" "''ping''"
        "\<lambda>c r tr. ((r @ ''-pong'', None :: error option), tr)"
        "\<lambda>c name tr. ((\<lparr>Name = name, Service = [], Resource = name, Type = [],
              TraceID = 9, ParentID = 9, Meta = Map.empty, Err = None\<rparr>, c), tr)"
        "\<lparr>incoming = None, outgoing = None, active = None\<rparr>" "''/pkg.Service/Method''"
        "''ping''" "''old''" "()"
        "\<lambda>c m rq rp cn os tr. ((rq @ ''-pong'', None :: error option), tr)" "()"]
  by (simp add: Enabled_def Let_def UnaryClientInterceptor_def serverSpan_def NewRootSpan_def
      SetMeta_def FinishWithErr_def eval_codec split_beta)

end
